theory Spec2Isabelle
  imports Main
begin

section \<open>Syntax trees\<close>

text \<open>
  The script \<^verbatim>\<open>src/typeorm-to-prisma.js\<close> works on the syntax tree that the parser
  collaborator builds for one source file, with the parser of the documented usage
  (\<^verbatim>\<open>--parser=ts\<close>). The tree type below has one constructor per node kind the script
  inspects or builds, with exactly the attributes it reads (\<^verbatim>\<open>type\<close>, \<^verbatim>\<open>name\<close>,
  \<^verbatim>\<open>value\<close>, \<^verbatim>\<open>key\<close>, \<^verbatim>\<open>callee\<close>, \<^verbatim>\<open>arguments\<close>, ...). Every other node kind is an
  \<open>OtherNode\<close> that keeps its kind tag and its children, so that the traversals still
  reach the calls below it.

  Modelling decisions:
  \<^item> A child of a node sits either in a field that holds one node (\<open>Single\<close>: the
    callee of a call, the object of a member access, the expression of an expression
    statement, the argument of \<^verbatim>\<open>await\<close>, the initial value of a declarator) or in a
    field that holds a list of nodes (\<open>Many\<close>: the arguments of a call, the elements of
    an array, the statements of a block or of the file). The script's comment insertion
    depends on this, so an \<open>OtherNode\<close> keeps its children slot by slot, and a comment
    that was inserted into a list is a node of that list (\<open>CommentNode\<close>).
  \<^item> Object-literal properties are keyed properties \<open>(key, value)\<close>; the key is itself a
    node, so that \<^verbatim>\<open>p.key.name\<close> and \<^verbatim>\<open>p.key.value\<close> can both be absent. Spread
    elements and object methods are outside the tree type, as are classes without a
    name and type references by a qualified name: on these the script reads an attribute
    of \<^verbatim>\<open>undefined\<close>.
  \<^item> A numeric literal carries the text that JavaScript prints for its value, a double
    (\<^verbatim>\<open>String(node.value)\<close>: \<^verbatim>\<open>5\<close>, \<^verbatim>\<open>0.5\<close>, \<^verbatim>\<open>9007199254740992\<close>); the script only
    prints the value and tests it for zero. A negative number is a unary expression in
    the parser's tree, hence an \<open>OtherNode\<close>.
  \<^item> An arrow function is given by its body.
  \<^item> Names and strings are ASCII texts.
  \<^item> The script mutates the tree in place; the model returns the new tree. A call or a
    method that throws is a value \<open>Inl e\<close>: the exception leaves the exported function,
    which then returns nothing.
  \<^item> The parser and the printer are parameters of the transform.
\<close>

datatype comment = CommentLine string | CommentBlock string

datatype slot = Single | Many

datatype expr =
    Identifier string
  | ThisExpression
  | NumericLiteral string
  | StringLiteral string
  | BooleanLiteral bool
  | NullLiteral
  | ObjectExpression "(expr \<times> expr) list"
  | MemberExpression expr expr
  | CallExpression expr "expr list"
  | ArrowFunctionExpression expr
  | CommentNode comment
  | OtherNode string "(slot \<times> expr list) list"

type_synonym property = "expr \<times> expr"

text \<open>What the script's calls and the collaborators' operations throw.\<close>

datatype error = TypeError | PathError | PrintError

text \<open>A JavaScript value read from a literal node's \<^verbatim>\<open>value\<close> attribute.\<close>

datatype jsValue = VString string | VNumber string | VBoolean bool

text \<open>\<^verbatim>\<open>node.name\<close> and \<^verbatim>\<open>node.value\<close>; \<open>None\<close> is JavaScript's \<^verbatim>\<open>undefined\<close>.\<close>

fun nodeName :: "expr \<Rightarrow> string option" where
  "nodeName (Identifier n) = Some n"
| "nodeName _ = None"

fun nodeValue :: "expr \<Rightarrow> jsValue option" where
  "nodeValue (StringLiteral s) = Some (VString s)"
| "nodeValue (NumericLiteral n) = Some (VNumber n)"
| "nodeValue (BooleanLiteral b) = Some (VBoolean b)"
| "nodeValue _ = None"

fun isObjectExpression :: "expr \<Rightarrow> bool" where
  "isObjectExpression (ObjectExpression ps) = True"
| "isObjectExpression _ = False"

text \<open>TypeScript type annotations, as far as the script looks into them.\<close>

datatype tsType =
    TSStringKeyword
  | TSNumberKeyword
  | TSBooleanKeyword
  | TSTypeReference string "tsType list"
  | TSOtherType

text \<open>
  A parameter of a method: a parameter property whose parameter is an identifier
  (decorator expressions, name, type annotation), a plain identifier, or anything else.
\<close>

datatype param =
    TSParameterProperty "expr list" string "tsType option"
  | IdentifierParam string "tsType option"
  | OtherParam "(slot \<times> expr list) list"

text \<open>
  Class members: a property (key, decorator expressions, type annotation, initial
  value), a method (kind, decorator expressions, parameters, the statements of its
  body), or anything else. The parser gives a method, the constructor included, the
  node kind \<^verbatim>\<open>ClassMethod\<close>; the statements of its body are nodes of a list (an
  expression statement among them is the node
  \<open>OtherNode ''ExpressionStatement'' [(Single, [e])]\<close>).

  A statement of the file is an import declaration, a class declaration, an expression
  statement (with the expression in its single \<^verbatim>\<open>expression\<close> field), any other
  statement (its kind and its children, slot by slot), or a comment node that was
  inserted between the statements. A class declaration says whether it is the
  declaration of an export statement (\<^verbatim>\<open>export class ...\<close>,
  \<^verbatim>\<open>export default class ...\<close>), in which case it sits in the single \<^verbatim>\<open>declaration\<close>
  field of that statement and not in the list of statements. Class declarations are
  top-level: the tree type has no class nested in a method body.
\<close>

datatype member =
    ClassProperty expr "expr list" "tsType option" "expr option"
  | ClassMethod string "expr list" "param list" "expr list"
  | OtherMember "(slot \<times> expr list) list"

datatype specifier =
    ImportSpecifier string
  | ImportDefaultSpecifier string
  | ImportNamespaceSpecifier string

datatype stmt =
    ImportDeclaration string "specifier list"
  | ClassDeclaration bool string "expr list" "member list"
  | ExpressionStatement expr
  | OtherStatement string "(slot \<times> expr list) list"
  | CommentStatement comment

type_synonym program = "stmt list"

record fileChanged =
  entities :: bool
  repositories :: bool
  modules :: bool
  services :: bool

definition initialFlags :: fileChanged where
  "initialFlags = \<lparr>entities = False, repositories = False, modules = False, services = False\<rparr>"

section \<open>Operations of the tree collaborator\<close>

text \<open>
  \<^verbatim>\<open>j(path).insertBefore(nodes)\<close> puts the new nodes into the list that holds the node
  of the path, directly before it. A node that sits in a single field has no such list,
  and the operation throws.
\<close>

definition insertBefore :: "slot \<Rightarrow> 'a list \<Rightarrow> 'a \<Rightarrow> error + 'a list" where
  "insertBefore position nodes node =
     (case position of Single \<Rightarrow> Inl PathError | Many \<Rightarrow> Inr (nodes @ [node]))"

text \<open>
  \<^verbatim>\<open>path.ancestors()\<close>: the paths that \<^verbatim>\<open>find(...).forEach\<close> hands out have no method
  of this name, so the call throws a \<^verbatim>\<open>TypeError\<close>, whatever the path. The argument is
  the name of the class declaration around the node, which an ancestor walk would
  reach.
\<close>

definition ancestors :: "string option \<Rightarrow> error + string option" where
  "ancestors enclosing = Inl TypeError"

text \<open>
  \<^verbatim>\<open>j(collection)\<close>: the function \<^verbatim>\<open>j\<close> takes a source text, a node or a path (or lists
  of them); given a collection, as in \<^verbatim>\<open>j(classDeclaration).find(...)\<close> of
  \<^verbatim>\<open>getModelNameFromContext\<close>, it throws.
\<close>

definition fromCollection :: "'a list \<Rightarrow> error + 'a list" where
  "fromCollection collection = Inl TypeError"

section \<open>Context resolver\<close>

text \<open>
  \<^verbatim>\<open>className.match(/(.+)(Service|Controller|Repository)$/)\<close>: the first group is
  greedy and the pattern is anchored at the end, so a match exists exactly when the name
  ends in one of the three suffixes with at least one character before it, and the
  first group is then the name without that suffix.
\<close>

definition stripSuffix :: "string \<Rightarrow> string \<Rightarrow> string option" where
  "stripSuffix suf s =
     (if length suf < length s \<and> drop (length s - length suf) s = suf
      then Some (take (length s - length suf) s) else None)"

definition serviceMatch :: "string \<Rightarrow> string option" where
  "serviceMatch className =
     (case stripSuffix ''Service'' className of
        Some b \<Rightarrow> Some b
      | None \<Rightarrow>
         (case stripSuffix ''Controller'' className of
            Some b \<Rightarrow> Some b
          | None \<Rightarrow> stripSuffix ''Repository'' className))"

fun isRepositoryProperty :: "member \<Rightarrow> bool" where
  "isRepositoryProperty (ClassProperty k ds (Some t) v) = (nodeName k = Some ''repository'')"
| "isRepositoryProperty _ = False"

fun classNamed :: "string \<Rightarrow> stmt \<Rightarrow> bool" where
  "classNamed n (ClassDeclaration ex c ds ms) = (c = n)"
| "classNamed n _ = False"

fun classMembers :: "stmt \<Rightarrow> member list" where
  "classMembers (ClassDeclaration ex c ds ms) = ms"
| "classMembers _ = []"

fun entityTypeOf :: "member \<Rightarrow> string option" where
  "entityTypeOf (ClassProperty k ds (Some (TSTypeReference tn (TSTypeReference en ps # rest))) v) =
     (if tn = ''Repository'' then Some en else None)"
| "entityTypeOf _ = None"

fun isThisRepository :: "expr \<Rightarrow> bool" where
  "isThisRepository (CallExpression (MemberExpression (MemberExpression ThisExpression (Identifier p)) m) args) =
     (p = ''repository'')"
| "isThisRepository _ = False"

text \<open>
  \<open>getModelNameFromContext root enclosing call\<close>, for the path of \<open>call\<close>; \<open>enclosing\<close> is
  the name of the class declaration around the call, \<open>None\<close> outside every class. The
  first statement of the function is \<^verbatim>\<open>let ancestors = path.ancestors()\<close>, which throws;
  the rest of the body is written down as it stands in the script, and is never reached.
  A result \<open>Inr None\<close> is the result \<^verbatim>\<open>null\<close>.
\<close>

definition getModelNameFromContext :: "program \<Rightarrow> string option \<Rightarrow> expr \<Rightarrow> error + string option" where
  "getModelNameFromContext root enclosing call =
     (case ancestors enclosing of
        Inl e \<Rightarrow> Inl e
      | Inr None \<Rightarrow> Inr None
      | Inr (Some cn) \<Rightarrow>
         (case serviceMatch cn of
            Some base \<Rightarrow> Inr (Some base)
          | None \<Rightarrow>
             (if isThisRepository call \<and> cn \<noteq> []
              then (case filter (classNamed cn) root of
                      [] \<Rightarrow> Inr None
                    | c # _ \<Rightarrow>
                       (case fromCollection [c] of
                          Inl e \<Rightarrow> Inl e
                        | Inr cs \<Rightarrow>
                           (case filter isRepositoryProperty (concat (map classMembers cs)) of
                              [] \<Rightarrow> Inr None
                            | p # _ \<Rightarrow> Inr (entityTypeOf p))))
              else Inr None)))"

text \<open>\<^verbatim>\<open>getModelNameFromContext(callPath) || 'model'\<close>\<close>

definition modelOrPlaceholder :: "string option \<Rightarrow> string" where
  "modelOrPlaceholder m = (case m of None \<Rightarrow> ''model'' | Some n \<Rightarrow> (if n = [] then ''model'' else n))"

text \<open>The new receiver \<^verbatim>\<open>this.prisma.<model>\<close>.\<close>

definition prismaModel :: "string option \<Rightarrow> expr" where
  "prismaModel model =
     MemberExpression (MemberExpression ThisExpression (Identifier ''prisma''))
       (Identifier (modelOrPlaceholder model))"

section \<open>Call-site rewriter\<close>

text \<open>\<^verbatim>\<open>j.property('init', j.identifier(k), v)\<close>\<close>

definition property :: "string \<Rightarrow> expr \<Rightarrow> property" where
  "property k v = (Identifier k, v)"

definition keyIs :: "string \<Rightarrow> property \<Rightarrow> bool" where
  \<comment> \<open>\<^verbatim>\<open>p.key.name === k || p.key.value === k\<close>\<close>
  "keyIs k p = (nodeName (fst p) = Some k \<or> nodeValue (fst p) = Some (VString k))"

definition keyText :: "property \<Rightarrow> jsValue option" where
  \<comment> \<open>\<^verbatim>\<open>p.key.name || p.key.value\<close>\<close>
  "keyText p =
     (case nodeName (fst p) of
        Some n \<Rightarrow> (if n \<noteq> [] then Some (VString n) else nodeValue (fst p))
      | None \<Rightarrow> nodeValue (fst p))"

definition isOption :: "property \<Rightarrow> bool" where
  \<comment> \<open>\<^verbatim>\<open>['relations', 'select', 'order', 'skip', 'take'].includes(p.key.name || p.key.value)\<close>\<close>
  "isOption p =
     (keyText p \<in> set (map (Some \<circ> VString) [''relations'', ''select'', ''order'', ''skip'', ''take'']))"

text \<open>
  \<^verbatim>\<open>transformRelationsToInclude\<close>: the first property keyed \<^verbatim>\<open>relations\<close> gets the key
  \<^verbatim>\<open>include\<close>; its value is kept (the loop over a nested object's properties does
  nothing).
\<close>

fun renameRelations :: "property list \<Rightarrow> property list" where
  "renameRelations [] = []"
| "renameRelations (p # ps) =
     (if keyIs ''relations'' p then (Identifier ''include'', snd p) # ps
      else p # renameRelations ps)"

fun transformRelationsToInclude :: "expr \<Rightarrow> expr" where
  "transformRelationsToInclude (ObjectExpression ps) = ObjectExpression (renameRelations ps)"
| "transformRelationsToInclude e = e"

fun transformFindOneArguments :: "expr list \<Rightarrow> expr list" where
  "transformFindOneArguments [] = []"
| "transformFindOneArguments (ObjectExpression ps # rest) =
     (let criteria = filter (\<lambda>p. \<not> isOption p) ps;
          ps' = (if \<not> list_ex (keyIs ''where'') ps \<and> criteria \<noteq> []
                 then filter isOption ps @ [property ''where'' (ObjectExpression criteria)]
                 else ps)
      in transformRelationsToInclude (ObjectExpression ps') # rest)"
| "transformFindOneArguments (a # rest) = a # rest"

fun isScalarOrIdentifier :: "expr \<Rightarrow> bool" where
  "isScalarOrIdentifier (NumericLiteral n) = True"
| "isScalarOrIdentifier (StringLiteral s) = True"
| "isScalarOrIdentifier (Identifier n) = True"
| "isScalarOrIdentifier _ = False"

fun transformDeleteArguments :: "expr list \<Rightarrow> expr list" where
  "transformDeleteArguments [] = []"
| "transformDeleteArguments (a # rest) =
     (if isScalarOrIdentifier a
      then ObjectExpression [property ''where'' (ObjectExpression [property ''id'' a])] # rest
      else if isObjectExpression a
      then ObjectExpression [property ''where'' a] # rest
      else a # rest)"

text \<open>\<^verbatim>\<open>findOneBy\<close>, \<^verbatim>\<open>findBy\<close>: the first argument, when there is one, is wrapped.\<close>

fun wrapWhere :: "expr list \<Rightarrow> expr list" where
  "wrapWhere [] = []"
| "wrapWhere (a # rest) = ObjectExpression [property ''where'' a] # rest"

fun transformUpdateArguments :: "expr list \<Rightarrow> expr list" where
  "transformUpdateArguments (idArg # dataArg # rest) =
     [ObjectExpression [property ''where'' (ObjectExpression [property ''id'' idArg]),
                        property ''data'' dataArg]]"
| "transformUpdateArguments args = args"

fun transformCountArguments :: "expr list \<Rightarrow> expr list" where
  "transformCountArguments (ObjectExpression ps # rest) =
     (if list_ex (keyIs ''where'') ps then ObjectExpression ps # rest
      else ObjectExpression [property ''where'' (ObjectExpression ps)] # rest)"
| "transformCountArguments args = args"

subsection \<open>The \<^verbatim>\<open>save\<close> heuristic\<close>

definition idCandidate :: "property \<Rightarrow> bool" where
  \<comment> \<open>the test inside the \<^verbatim>\<open>for\<close> loop of case \<^verbatim>\<open>'save'\<close>\<close>
  "idCandidate p =
     (nodeName (fst p) = Some ''id'' \<and> snd p \<noteq> NullLiteral \<and> nodeValue (snd p) \<noteq> None)"

fun hasIdProperty :: "expr list \<Rightarrow> bool" where
  "hasIdProperty [ObjectExpression ps] = list_ex idCandidate ps"
| "hasIdProperty _ = False"

text \<open>\<^verbatim>\<open>findIndex\<close>; \<open>None\<close> is the result \<^verbatim>\<open>-1\<close>.\<close>

fun findIndex :: "('a \<Rightarrow> bool) \<Rightarrow> 'a list \<Rightarrow> nat option" where
  "findIndex P [] = None"
| "findIndex P (x # xs) =
     (if P x then Some 0 else map_option Suc (findIndex P xs))"

text \<open>\<^verbatim>\<open>xs.splice(i, 1)\<close>, for an index inside the list.\<close>

definition splice1 :: "nat \<Rightarrow> 'a list \<Rightarrow> 'a list" where
  "splice1 i xs = take i xs @ drop (Suc i) xs"

text \<open>
  The update branch of \<^verbatim>\<open>save\<close>. It runs only when \<open>hasIdProperty\<close> holds, so the first
  argument is an object literal and \<^verbatim>\<open>findIndex\<close> finds a property named \<^verbatim>\<open>id\<close>; the
  other two equations are unreachable and leave the arguments as they are.
\<close>

fun saveAsUpdate :: "expr list \<Rightarrow> expr list" where
  "saveAsUpdate (ObjectExpression ps # rest) =
     (case findIndex (\<lambda>p. nodeName (fst p) = Some ''id'') ps of
        Some i \<Rightarrow>
          ObjectExpression
            [property ''where'' (ObjectExpression [property ''id'' (snd (ps ! i))]),
             property ''data'' (ObjectExpression (splice1 i ps))] # rest
      | None \<Rightarrow> ObjectExpression ps # rest)"
| "saveAsUpdate args = args"

fun saveAsCreate :: "expr list \<Rightarrow> expr list" where
  "saveAsCreate [ObjectExpression ps] = [ObjectExpression [property ''data'' (ObjectExpression ps)]]"
| "saveAsCreate args = args"

definition saveNote :: comment where
  "saveNote = CommentLine '' NOTE: TypeORM `save` could be either create or update. Verify correct behavior.''"

definition queryBuilderTodo :: comment where
  "queryBuilderTodo =
     CommentLine '' TODO: Replace TypeORM query builder with Prisma equivalent - manual conversion needed''"

definition nl :: string where
  "nl = [CHR 0x0A]"

definition queryBuilderExample :: comment where
  "queryBuilderExample = CommentBlock (nl @ concat (map (\<lambda>l. l @ nl)
     ['' Example Prisma replacement for query builder:'',
      '' '',
      '' TypeORM:'',
      '' const users = await this.repository'',
      ''   .createQueryBuilder('user')'',
      ''   .leftJoinAndSelect('user.profile', 'profile')'',
      ''   .where('user.isActive = :isActive', { isActive: true })'',
      ''   .getMany();'',
      '' '',
      '' Prisma:'',
      '' const users = await this.prisma.user.findMany({'',
      ''   where: {'',
      ''     isActive: true'',
      ''   },'',
      ''   include: {'',
      ''     profile: true'',
      ''   }'',
      '' });'']))"
subsection \<open>One call site\<close>

fun isRepositoryCall :: "expr \<Rightarrow> bool" where
  "isRepositoryCall (CallExpression (MemberExpression (MemberExpression obj prop) meth) args) =
     (nodeName prop = Some ''repository'')"
| "isRepositoryCall _ = False"

text \<open>
  The \<^verbatim>\<open>switch (methodName)\<close> of \<^verbatim>\<open>transformRepositoryUsage\<close>, for a call that passed
  the receiver test: \<open>position\<close> is the slot that holds the call, \<open>recv\<close> the callee's
  object and \<open>meth\<close> the callee's property node. The result is what the case leaves in
  the place of the call: the call itself, after the nodes that were inserted before it.

  Every case that renames the method first builds the new receiver from
  \<^verbatim>\<open>getModelNameFromContext(callPath) || 'model'\<close>, so the exception of that call leaves
  the case before anything is assigned. The case \<^verbatim>\<open>save\<close> inserts its comment after that
  and before it reads the arguments; the case \<^verbatim>\<open>createQueryBuilder\<close> only inserts its
  two comments.
\<close>

definition rewriteMethod ::
  "slot \<Rightarrow> program \<Rightarrow> string option \<Rightarrow> expr \<Rightarrow> expr \<Rightarrow> expr list \<Rightarrow> error + expr list" where
  "rewriteMethod position root enclosing recv meth args =
     (let m = nodeName meth;
          call = CallExpression (MemberExpression recv meth) args;
          to = (\<lambda>name args'.
                  case getModelNameFromContext root enclosing call of
                    Inl e \<Rightarrow> Inl e
                  | Inr model \<Rightarrow>
                      Inr [CallExpression (MemberExpression (prismaModel model) (Identifier name)) args'])
      in if m = Some ''find'' then to ''findMany'' args
         else if m = Some ''findOne'' then to ''findUnique'' (transformFindOneArguments args)
         else if m = Some ''findOneBy'' then to ''findUnique'' (wrapWhere args)
         else if m = Some ''findBy'' then to ''findMany'' (wrapWhere args)
         else if m = Some ''save'' then
           (case getModelNameFromContext root enclosing call of
              Inl e \<Rightarrow> Inl e
            | Inr model \<Rightarrow>
                insertBefore position [CommentNode saveNote]
                  (if hasIdProperty args
                   then CallExpression (MemberExpression (prismaModel model) (Identifier ''update''))
                          (saveAsUpdate args)
                   else CallExpression (MemberExpression (prismaModel model) (Identifier ''create''))
                          (saveAsCreate args)))
         else if m = Some ''update'' then to ''update'' (transformUpdateArguments args)
         else if m = Some ''delete'' \<or> m = Some ''remove'' then
           to ''delete'' (transformDeleteArguments args)
         else if m = Some ''count'' then to ''count'' (transformCountArguments args)
         else if m = Some ''createQueryBuilder'' then
           insertBefore position [CommentNode queryBuilderTodo, CommentNode queryBuilderExample] call
         else Inr [call])"

text \<open>
  The body of the \<^verbatim>\<open>forEach\<close> over call expressions, for one call: a call whose callee
  is not a member access on a member named \<^verbatim>\<open>repository\<close> is left as it is.
\<close>

fun rewriteCall :: "slot \<Rightarrow> program \<Rightarrow> string option \<Rightarrow> expr \<Rightarrow> error + expr list" where
  "rewriteCall position root enclosing (CallExpression (MemberExpression (MemberExpression obj prop) meth) args) =
     (if nodeName prop = Some ''repository''
      then rewriteMethod position root enclosing (MemberExpression obj prop) meth args
      else Inr [CallExpression (MemberExpression (MemberExpression obj prop) meth) args])"
| "rewriteCall position root enclosing e = Inr [e]"

subsection \<open>All call sites\<close>

text \<open>
  \<^verbatim>\<open>root.find(j.CallExpression)\<close> collects the paths of all call expressions of the
  tree before the first one is visited, a call before the calls below it and the
  children of a node in their order. \<open>findCalls\<close> gives each call with the slot that
  holds it.
\<close>

fun findCalls :: "slot \<Rightarrow> expr \<Rightarrow> (slot \<times> expr) list" where
  "findCalls position (ObjectExpression ps) =
     concat (map (\<lambda>(k, v). findCalls Single k @ findCalls Single v) ps)"
| "findCalls position (MemberExpression a b) = findCalls Single a @ findCalls Single b"
| "findCalls position (CallExpression f args) =
     (position, CallExpression f args) # findCalls Single f @ concat (map (findCalls Many) args)"
| "findCalls position (ArrowFunctionExpression b) = findCalls Single b"
| "findCalls position (OtherNode k slots) =
     concat (map (\<lambda>(kind, es). concat (map (findCalls kind) es)) slots)"
| "findCalls position e = []"

text \<open>
  The tree after a pass in which no visit threw. The visits rewrite the nodes in
  place and do not see each other: a visit reads the kinds and names of the call's own
  callee and the slot that holds the call, which no other visit changes. A node in a
  single field is either kept or replaced by one node; a node in a list is replaced by
  the nodes that its visit leaves there.
\<close>

definition rewriteField :: "program \<Rightarrow> string option \<Rightarrow> expr \<Rightarrow> expr" where
  "rewriteField root enclosing e =
     (case rewriteCall Single root enclosing e of Inr [e'] \<Rightarrow> e' | _ \<Rightarrow> e)"

definition rewriteElement :: "program \<Rightarrow> string option \<Rightarrow> expr \<Rightarrow> expr list" where
  "rewriteElement root enclosing e =
     (case rewriteCall Many root enclosing e of Inr es \<Rightarrow> es | Inl err \<Rightarrow> [e])"

fun rewriteBelow :: "program \<Rightarrow> string option \<Rightarrow> expr \<Rightarrow> expr" where
  "rewriteBelow root cn (ObjectExpression ps) =
     ObjectExpression
       (map (\<lambda>(k, v). (rewriteField root cn (rewriteBelow root cn k),
                        rewriteField root cn (rewriteBelow root cn v))) ps)"
| "rewriteBelow root cn (MemberExpression a b) =
     MemberExpression (rewriteField root cn (rewriteBelow root cn a))
       (rewriteField root cn (rewriteBelow root cn b))"
| "rewriteBelow root cn (CallExpression f args) =
     CallExpression (rewriteField root cn (rewriteBelow root cn f))
       (concat (map (\<lambda>a. rewriteElement root cn (rewriteBelow root cn a)) args))"
| "rewriteBelow root cn (ArrowFunctionExpression b) =
     ArrowFunctionExpression (rewriteField root cn (rewriteBelow root cn b))"
| "rewriteBelow root cn (OtherNode k slots) =
     OtherNode k
       (map (\<lambda>(kind, es).
               (kind, case kind of
                        Single \<Rightarrow> map (\<lambda>e. rewriteField root cn (rewriteBelow root cn e)) es
                      | Many \<Rightarrow> concat (map (\<lambda>e. rewriteElement root cn (rewriteBelow root cn e)) es)))
          slots)"
| "rewriteBelow root cn e = e"

subsection \<open>Expressions of a file\<close>

text \<open>
  The expression nodes below a parameter, a class member and a statement, slot by slot.
  A decorator expression is the single \<^verbatim>\<open>expression\<close> field of its decorator node, the
  statements of a method body are a list.
\<close>

fun paramSlots :: "param \<Rightarrow> (slot \<times> expr list) list" where
  "paramSlots (TSParameterProperty ds n t) = [(Single, ds)]"
| "paramSlots (IdentifierParam n t) = []"
| "paramSlots (OtherParam slots) = slots"

fun memberSlots :: "member \<Rightarrow> (slot \<times> expr list) list" where
  "memberSlots (ClassProperty k ds t v) =
     [(Single, [k]), (Single, ds), (Single, (case v of None \<Rightarrow> [] | Some e \<Rightarrow> [e]))]"
| "memberSlots (ClassMethod kind ds ps body) =
     (Single, ds) # concat (map paramSlots ps) @ [(Many, body)]"
| "memberSlots (OtherMember slots) = slots"

fun stmtSlots :: "stmt \<Rightarrow> (slot \<times> expr list) list" where
  "stmtSlots (ImportDeclaration src sp) = []"
| "stmtSlots (ClassDeclaration ex c ds ms) = (Single, ds) # concat (map memberSlots ms)"
| "stmtSlots (ExpressionStatement e) = [(Single, [e])]"
| "stmtSlots (OtherStatement k slots) = slots"
| "stmtSlots (CommentStatement c) = []"

definition stmtExprs :: "stmt \<Rightarrow> expr list" where
  "stmtExprs s = concat (map snd (stmtSlots s))"

text \<open>
  \<open>mapStmt g h\<close> rebuilds a statement from its expressions: \<open>g e\<close> takes the place of
  a node \<open>e\<close> in a single field, the nodes \<open>h e\<close> take the place of a node \<open>e\<close> in a list.
\<close>

definition mapSlot :: "(expr \<Rightarrow> expr) \<Rightarrow> (expr \<Rightarrow> expr list) \<Rightarrow> slot \<times> expr list \<Rightarrow> slot \<times> expr list" where
  "mapSlot g h s =
     (fst s, case fst s of Single \<Rightarrow> map g (snd s) | Many \<Rightarrow> concat (map h (snd s)))"

fun mapParam :: "(expr \<Rightarrow> expr) \<Rightarrow> (expr \<Rightarrow> expr list) \<Rightarrow> param \<Rightarrow> param" where
  "mapParam g h (TSParameterProperty ds n t) = TSParameterProperty (map g ds) n t"
| "mapParam g h (IdentifierParam n t) = IdentifierParam n t"
| "mapParam g h (OtherParam slots) = OtherParam (map (mapSlot g h) slots)"

fun mapMember :: "(expr \<Rightarrow> expr) \<Rightarrow> (expr \<Rightarrow> expr list) \<Rightarrow> member \<Rightarrow> member" where
  "mapMember g h (ClassProperty k ds t v) = ClassProperty (g k) (map g ds) t (map_option g v)"
| "mapMember g h (ClassMethod kind ds ps body) =
     ClassMethod kind (map g ds) (map (mapParam g h) ps) (concat (map h body))"
| "mapMember g h (OtherMember slots) = OtherMember (map (mapSlot g h) slots)"

fun mapStmt :: "(expr \<Rightarrow> expr) \<Rightarrow> (expr \<Rightarrow> expr list) \<Rightarrow> stmt \<Rightarrow> stmt" where
  "mapStmt g h (ImportDeclaration src sp) = ImportDeclaration src sp"
| "mapStmt g h (ClassDeclaration ex c ds ms) =
     ClassDeclaration ex c (map g ds) (map (mapMember g h) ms)"
| "mapStmt g h (ExpressionStatement e) = ExpressionStatement (g e)"
| "mapStmt g h (OtherStatement k slots) = OtherStatement k (map (mapSlot g h) slots)"
| "mapStmt g h (CommentStatement c) = CommentStatement c"

fun enclosingClass :: "stmt \<Rightarrow> string option" where
  "enclosingClass (ClassDeclaration ex c ds ms) = Some c"
| "enclosingClass s = None"

text \<open>The calls of a file in the order of the visits, each with its class and its slot.\<close>

definition stmtCalls :: "stmt \<Rightarrow> (string option \<times> slot \<times> expr) list" where
  "stmtCalls s =
     concat (map (\<lambda>(kind, es). concat (map (\<lambda>e. map (Pair (enclosingClass s)) (findCalls kind e)) es))
               (stmtSlots s))"

definition programCalls :: "program \<Rightarrow> (string option \<times> slot \<times> expr) list" where
  "programCalls root = concat (map stmtCalls root)"

subsection \<open>Repository parameters of constructors\<close>

text \<open>
  \<^verbatim>\<open>j(classPath).find(j.MethodDefinition, { kind: 'constructor' })\<close>: the parameter lists
  of the constructors of a class that are \<^verbatim>\<open>MethodDefinition\<close> nodes. The parser's
  methods are \<^verbatim>\<open>ClassMethod\<close> nodes, which are of another kind, so the query finds
  nothing: no parameter is replaced, and this loop never sets a flag.
\<close>

fun isRepositoryParam :: "param \<Rightarrow> bool" where
  "isRepositoryParam (TSParameterProperty ds n (Some (TSTypeReference tn ps))) = (tn = ''Repository'')"
| "isRepositoryParam _ = False"

definition methodDefinitions :: "stmt \<Rightarrow> param list list" where
  "methodDefinitions s = []"

definition hasRepositoryParam :: "stmt \<Rightarrow> bool" where
  "hasRepositoryParam s = list_ex (list_ex isRepositoryParam) (methodDefinitions s)"

subsection \<open>\<^verbatim>\<open>transformRepositoryUsage\<close>\<close>

text \<open>
  The \<^verbatim>\<open>forEach\<close> over the calls: a visit that throws ends the pass (and the exported
  function) with the flags as they are; a visit of a call on a member named
  \<^verbatim>\<open>repository\<close> that returns sets \<^verbatim>\<open>fileChanged.services\<close>.
\<close>

fun visitCalls ::
  "program \<Rightarrow> (string option \<times> slot \<times> expr) list \<Rightarrow> fileChanged \<Rightarrow> error option \<times> fileChanged" where
  "visitCalls root [] fc = (None, fc)"
| "visitCalls root ((enclosing, position, call) # rest) fc =
     (if isRepositoryCall call
      then (case rewriteCall position root enclosing call of
              Inl e \<Rightarrow> (Some e, fc)
            | Inr nodes \<Rightarrow> visitCalls root rest (fc\<lparr>services := True\<rparr>))
      else visitCalls root rest fc)"

definition transformRepositoryUsage :: "program \<Rightarrow> fileChanged \<Rightarrow> (error + program) \<times> fileChanged" where
  "transformRepositoryUsage root fc =
     (let fc1 = (if list_ex hasRepositoryParam root then fc\<lparr>services := True\<rparr> else fc)
      in case visitCalls root (programCalls root) fc1 of
           (Some e, fc2) \<Rightarrow> (Inl e, fc2)
         | (None, fc2) \<Rightarrow>
             (Inr (map (\<lambda>s. mapStmt
                               (\<lambda>e. rewriteField root (enclosingClass s)
                                       (rewriteBelow root (enclosingClass s) e))
                               (\<lambda>e. rewriteElement root (enclosingClass s)
                                       (rewriteBelow root (enclosingClass s) e))
                               s) root),
              fc2))"

section \<open>Type mapping table\<close>

definition typeormToPrismaTypeMap :: "(string \<times> string) list" where
  "typeormToPrismaTypeMap =
     [(''string'', ''String''), (''number'', ''Int''), (''boolean'', ''Boolean''),
      (''Date'', ''DateTime''), (''json'', ''Json''), (''varchar'', ''String''),
      (''text'', ''String''), (''int'', ''Int''), (''integer'', ''Int''),
      (''smallint'', ''Int''), (''bigint'', ''BigInt''), (''float'', ''Float''),
      (''double'', ''Float''), (''decimal'', ''Decimal''), (''boolean'', ''Boolean''),
      (''date'', ''DateTime''), (''datetime'', ''DateTime''), (''timestamp'', ''DateTime''),
      (''enum'', ''Enum''), (''json'', ''Json''), (''jsonb'', ''Json''), (''uuid'', ''String''),
      (''simple-array'', ''String[]''), (''simple-json'', ''Json'')]"

text \<open>\<^verbatim>\<open>toLowerCase\<close> on the ASCII letters.\<close>

definition lowerChar :: "char \<Rightarrow> char" where
  "lowerChar c =
     (if 65 \<le> (of_char c :: nat) \<and> (of_char c :: nat) \<le> 90
      then char_of ((of_char c :: nat) + 32) else c)"

definition toLowerCase :: "string \<Rightarrow> string" where
  "toLowerCase s = map lowerChar s"


text \<open>
  \<^verbatim>\<open>typeormToPrismaTypeMap[typeormType.toLowerCase()] || 'String'\<close>. The table is a plain
  object, so a name that is no key of the table but a property that every object
  inherits is found as well: of these, \<^verbatim>\<open>constructor\<close> and \<^verbatim>\<open>__proto__\<close> are in lower
  case. Their values are a function and an object, which the template literals of the
  schema extractor print as the texts below.
\<close>

definition inheritedProperty :: "string \<Rightarrow> string option" where
  "inheritedProperty k =
     (if k = ''constructor'' then Some ''function Object() { [native code] }''
      else if k = ''__proto__'' then Some ''[object Object]''
      else None)"

definition mapTypeOrmTypeToPrisma :: "string \<Rightarrow> string" where
  "mapTypeOrmTypeToPrisma typeormType =
     (case map_of typeormToPrismaTypeMap (toLowerCase typeormType) of
        Some t \<Rightarrow> t
      | None \<Rightarrow>
         (case inheritedProperty (toLowerCase typeormType) of
            Some t \<Rightarrow> t
          | None \<Rightarrow> ''String''))"

fun extractTypeFromProperty :: "tsType option \<Rightarrow> string" where
  "extractTypeFromProperty None = ''String''"
| "extractTypeFromProperty (Some TSStringKeyword) = ''String''"
| "extractTypeFromProperty (Some TSNumberKeyword) = ''Int''"
| "extractTypeFromProperty (Some TSBooleanKeyword) = ''Boolean''"
| "extractTypeFromProperty (Some (TSTypeReference typeName ps)) =
     (if typeName = ''Date'' then ''DateTime''
      else if typeName = ''number'' then ''Int''
      else if typeName = ''string'' then ''String''
      else if typeName = ''boolean'' then ''Boolean''
      else mapTypeOrmTypeToPrisma typeName)"
| "extractTypeFromProperty (Some TSOtherType) = ''String''"

section \<open>Schema extractor\<close>

text \<open>
  How a template literal prints a name that may be \<^verbatim>\<open>undefined\<close>, and a value. A
  number is falsy when it is zero, which prints as \<^verbatim>\<open>0\<close>.
\<close>

definition str :: "string option \<Rightarrow> string" where
  "str s = (case s of None \<Rightarrow> ''undefined'' | Some t \<Rightarrow> t)"

fun showValue :: "jsValue \<Rightarrow> string" where
  "showValue (VString s) = s"
| "showValue (VNumber n) = n"
| "showValue (VBoolean b) = (if b then ''true'' else ''false'')"

fun truthy :: "jsValue \<Rightarrow> bool" where
  "truthy (VString s) = (s \<noteq> [])"
| "truthy (VNumber n) = (n \<noteq> ''0'')"
| "truthy (VBoolean b) = b"

definition dq :: string where
  "dq = [CHR 0x22]"

subsection \<open>Identity and plain columns\<close>

fun primaryGeneratedColumn :: "string \<Rightarrow> expr list \<Rightarrow> string" where
  "primaryGeneratedColumn propertyName [] =
     ''  '' @ propertyName @ '' Int @id @default(autoincrement())'' @ nl"
| "primaryGeneratedColumn propertyName (firstArg # rest) =
     (if firstArg = StringLiteral ''uuid''
      then ''  '' @ propertyName @ '' String @id @default(uuid())'' @ nl
      else if firstArg = StringLiteral ''increment''
      then ''  '' @ propertyName @ '' Int @id @default(autoincrement())'' @ nl
      else ''  '' @ propertyName @ '' Int '' @ nl)"

text \<open>The text of a \<^verbatim>\<open>default\<close> option; \<open>None\<close> when \<^verbatim>\<open>defaultValue\<close> stays falsy.\<close>

fun defaultValue :: "expr \<Rightarrow> string option" where
  "defaultValue (StringLiteral s) = Some (dq @ s @ dq)"
| "defaultValue (NumericLiteral n) = (if n = ''0'' then None else Some n)"
| "defaultValue (BooleanLiteral b) = (if b then Some ''true'' else None)"
| "defaultValue (CallExpression f args) = (if nodeName f = Some ''Date'' then Some ''now()'' else None)"
| "defaultValue e = None"

text \<open>One property of the options object of \<^verbatim>\<open>@Column({...})\<close>, on the pair
  \<open>(columnType, columnOptions)\<close>.\<close>

definition columnOption :: "property \<Rightarrow> string \<times> string list \<Rightarrow> string \<times> string list" where
  "columnOption prop st =
     (let k = nodeName (fst prop); v = snd prop
      in if k = Some ''type'' then
           (case v of StringLiteral s \<Rightarrow> (mapTypeOrmTypeToPrisma s, snd st) | _ \<Rightarrow> st)
         else if k = Some ''nullable'' then
           (if nodeValue v = Some (VBoolean True) then (fst st, snd st @ [''?'']) else st)
         else if k = Some ''default'' then
           (case defaultValue v of
              Some d \<Rightarrow> (fst st, snd st @ [''@default('' @ d @ '')''])
            | None \<Rightarrow> st)
         else if k = Some ''unique'' then
           (if nodeValue v = Some (VBoolean True) then (fst st, snd st @ [''@unique'']) else st)
         else st)"

fun joinWith :: "string \<Rightarrow> string list \<Rightarrow> string" where
  "joinWith sep [] = []"
| "joinWith sep [x] = x"
| "joinWith sep (x # xs) = x @ sep @ joinWith sep xs"

fun columnSettings :: "expr list \<Rightarrow> tsType option \<Rightarrow> string \<times> string list" where
  "columnSettings [] t = (extractTypeFromProperty t, [])"
| "columnSettings (StringLiteral s # rest) t = (mapTypeOrmTypeToPrisma s, [])"
| "columnSettings (ObjectExpression ps # rest) t = fold columnOption ps (''String'', [])"
| "columnSettings (a # rest) t = (''String'', [])"

definition column :: "string \<Rightarrow> expr list \<Rightarrow> tsType option \<Rightarrow> string" where
  "column propertyName decoratorArgs t =
     (let (columnType, columnOptions) = columnSettings decoratorArgs t
      in ''  '' @ propertyName @ '' '' @ columnType
         @ (if columnOptions \<noteq> [] then '' '' @ joinWith '' '' columnOptions else [])
         @ nl)"

subsection \<open>Relations\<close>

text \<open>
  The target type of a relation: the identifier an arrow function returns when the
  decorator has arguments, else the name of the property's own type reference; a
  missing or empty name becomes \<^verbatim>\<open>Unknown\<close>.
\<close>

fun relationTargetRaw :: "expr list \<Rightarrow> tsType option \<Rightarrow> string" where
  "relationTargetRaw (ArrowFunctionExpression (Identifier n) # rest) t = n"
| "relationTargetRaw (a # rest) t = []"
| "relationTargetRaw [] (Some (TSTypeReference n ps)) = n"
| "relationTargetRaw [] t = []"

definition relationTarget :: "expr list \<Rightarrow> tsType option \<Rightarrow> string" where
  "relationTarget decoratorArgs t =
     (let targetType = relationTargetRaw decoratorArgs t
      in if targetType = [] then ''Unknown'' else targetType)"

text \<open>The inner \<^verbatim>\<open>switch (decoratorName)\<close> of the four relation cases.\<close>

definition relation :: "string \<Rightarrow> string \<Rightarrow> string \<Rightarrow> string \<Rightarrow> string" where
  "relation decoratorName className fieldName targetType =
     (if decoratorName = ''OneToOne'' then
        ''  '' @ fieldName @ '' '' @ targetType @ ''? @relation('' @ dq @ className @ ''To'' @ targetType @ dq @ '')'' @ nl
      else if decoratorName = ''ManyToOne'' then
        ''  '' @ fieldName @ '' '' @ targetType @ '' @relation('' @ dq @ fieldName @ ''Relation'' @ dq @ '')'' @ nl
        @ ''  '' @ fieldName @ ''Id Int'' @ nl
      else if decoratorName = ''OneToMany'' then
        ''  '' @ fieldName @ '' '' @ targetType @ ''[] @relation('' @ dq @ fieldName @ ''Relation'' @ dq @ '')'' @ nl
      else if decoratorName = ''ManyToMany'' then
        ''  '' @ fieldName @ '' '' @ targetType @ ''[] @relation('' @ dq @ className @ ''To'' @ targetType @ dq @ '')'' @ nl
      else [])"

subsection \<open>One decorator of one class property\<close>

text \<open>
  The text that one decorator of a property appends to \<^verbatim>\<open>modelDefinition\<close>: the outer
  \<^verbatim>\<open>switch (decoratorName)\<close>. A decorator that is not a call, and a call to any other
  name, appends nothing.
\<close>

definition decoratorLines ::
  "string \<Rightarrow> string \<Rightarrow> tsType option \<Rightarrow> string option \<Rightarrow> expr list \<Rightarrow> string" where
  "decoratorLines className propertyName t decoratorName decoratorArgs =
     (if decoratorName = Some ''PrimaryGeneratedColumn'' then primaryGeneratedColumn propertyName decoratorArgs
      else if decoratorName = Some ''PrimaryColumn'' then
        ''  '' @ propertyName @ '' '' @ extractTypeFromProperty t @ '' @id'' @ nl
      else if decoratorName = Some ''Column'' then column propertyName decoratorArgs t
      else if decoratorName = Some ''CreateDateColumn'' then
        ''  '' @ propertyName @ '' DateTime @default(now())'' @ nl
      else if decoratorName = Some ''UpdateDateColumn'' then
        ''  '' @ propertyName @ '' DateTime @updatedAt'' @ nl
      else if decoratorName = Some ''DeleteDateColumn'' then
        ''  '' @ propertyName @ '' DateTime? @map('' @ dq @ ''deleted_at'' @ dq @ '')'' @ nl
      else if decoratorName = Some ''OneToOne'' \<or> decoratorName = Some ''ManyToOne''
              \<or> decoratorName = Some ''OneToMany'' \<or> decoratorName = Some ''ManyToMany'' then
        relation (str decoratorName) className propertyName (relationTarget decoratorArgs t)
      else [])"

fun decoratorText :: "string \<Rightarrow> string \<Rightarrow> tsType option \<Rightarrow> expr \<Rightarrow> string" where
  "decoratorText className propertyName t (CallExpression f args) =
     decoratorLines className propertyName t (nodeName f) args"
| "decoratorText className propertyName t e = []"

fun propertyText :: "string \<Rightarrow> member \<Rightarrow> string" where
  "propertyText className (ClassProperty k ds t v) =
     concat (map (decoratorText className (str (nodeName k)) t) ds)"
| "propertyText className m = []"

subsection \<open>\<^verbatim>\<open>transformEntityClasses\<close>\<close>

fun paramDecorators :: "param \<Rightarrow> expr list" where
  "paramDecorators (TSParameterProperty ds n t) = ds"
| "paramDecorators p = []"

fun memberDecorators :: "member \<Rightarrow> expr list" where
  "memberDecorators (ClassProperty k ds t v) = ds"
| "memberDecorators (ClassMethod kind ds ps body) = ds @ concat (map paramDecorators ps)"
| "memberDecorators (OtherMember slots) = []"

text \<open>\<^verbatim>\<open>j(path).find(j.Decorator)\<close>: the decorators of the class and of its members.\<close>

fun classDecorators :: "stmt \<Rightarrow> expr list" where
  "classDecorators (ClassDeclaration ex c ds ms) = ds @ concat (map memberDecorators ms)"
| "classDecorators s = []"

fun isEntityDecorator :: "expr \<Rightarrow> bool" where
  "isEntityDecorator (CallExpression f args) = (nodeName f = Some ''Entity'')"
| "isEntityDecorator e = False"

definition isEntity :: "stmt \<Rightarrow> bool" where
  "isEntity s = list_ex isEntityDecorator (classDecorators s)"

text \<open>\<^verbatim>\<open>entityOptions.name\<close> after one decorator; \<open>None\<close> is \<^verbatim>\<open>undefined\<close>.\<close>

fun entityOptionsName :: "expr \<Rightarrow> jsValue option \<Rightarrow> jsValue option" where
  "entityOptionsName (CallExpression f (StringLiteral s # rest)) cur =
     (if nodeName f = Some ''Entity'' then Some (VString s) else cur)"
| "entityOptionsName (CallExpression f (ObjectExpression ps # rest)) cur =
     (if nodeName f = Some ''Entity''
      then fold (\<lambda>prop n. if nodeName (fst prop) = Some ''name'' then nodeValue (snd prop) else n) ps cur
      else cur)"
| "entityOptionsName e cur = cur"

definition tableName :: "stmt \<Rightarrow> string \<Rightarrow> string" where
  "tableName s className =
     (case fold entityOptionsName (classDecorators s) None of
        Some v \<Rightarrow> (if truthy v then showValue v else toLowerCase className)
      | None \<Rightarrow> toLowerCase className)"

fun modelDefinition :: "stmt \<Rightarrow> string" where
  "modelDefinition (ClassDeclaration ex className ds ms) =
     ''model '' @ className @ '' {'' @ nl
     @ concat (map (propertyText className) ms)
     @ nl @ ''  @@map('' @ dq @ tableName (ClassDeclaration ex className ds ms) className @ dq @ '')'' @ nl
     @ ''}'' @ nl"
| "modelDefinition s = []"

definition entityNote :: comment where
  "entityNote = CommentLine
     '' The TypeORM entity below should be replaced with the Prisma Client. Use the Prisma schema generated by `npx prisma db pull` instead.''"

text \<open>\<^verbatim>\<open>prismaModels.set(className, modelDefinition)\<close> on an insertion-ordered map.\<close>

fun mapSet :: "string \<Rightarrow> string \<Rightarrow> (string \<times> string) list \<Rightarrow> (string \<times> string) list" where
  "mapSet k v [] = [(k, v)]"
| "mapSet k v ((k', v') # m) = (if k' = k then (k, v) # m else (k', v') # mapSet k v m)"

text \<open>\<^verbatim>\<open>classNode.id.name\<close>\<close>

fun classId :: "stmt \<Rightarrow> string" where
  "classId (ClassDeclaration ex c ds ms) = c"
| "classId s = []"

text \<open>The slot that holds a class declaration.\<close>

fun classPosition :: "stmt \<Rightarrow> slot" where
  "classPosition (ClassDeclaration ex c ds ms) = (if ex then Single else Many)"
| "classPosition s = Many"

text \<open>
  The \<^verbatim>\<open>forEach\<close> over the class declarations of the file, on the statements from the
  current one on, with the flags and the recorded models. For an entity class the model
  is recorded, then the comment is inserted before the class, then
  \<^verbatim>\<open>fileChanged.entities\<close> is set; the insertion throws for the declaration of an export
  statement, and the loop ends there.
\<close>

fun entityClasses ::
  "program \<Rightarrow> fileChanged \<Rightarrow> (string \<times> string) list
     \<Rightarrow> (error + program \<times> (string \<times> string) list) \<times> fileChanged" where
  "entityClasses [] fc prismaModels = (Inr ([], prismaModels), fc)"
| "entityClasses (s # rest) fc prismaModels =
     (if isEntity s then
        (case insertBefore (classPosition s) [CommentStatement entityNote] s of
           Inl e \<Rightarrow> (Inl e, fc)
         | Inr marked \<Rightarrow>
            (case entityClasses rest (fc\<lparr>entities := True\<rparr>)
                    (mapSet (classId s) (modelDefinition s) prismaModels) of
               (Inl e, fc') \<Rightarrow> (Inl e, fc')
             | (Inr (rest', prismaModels'), fc') \<Rightarrow> (Inr (marked @ rest', prismaModels'), fc')))
      else
        (case entityClasses rest fc prismaModels of
           (Inl e, fc') \<Rightarrow> (Inl e, fc')
         | (Inr (rest', prismaModels'), fc') \<Rightarrow> (Inr (s # rest', prismaModels'), fc')))"

definition transformEntityClasses ::
  "program \<Rightarrow> fileChanged \<Rightarrow> (error + program \<times> (string \<times> string) list) \<times> fileChanged" where
  "transformEntityClasses root fc = entityClasses root fc []"

section \<open>Import and registration rewriter\<close>

fun includesStr :: "string \<Rightarrow> string \<Rightarrow> bool" where
  "includesStr [] sub = (sub = [])"
| "includesStr (c # cs) sub = (take (length sub) (c # cs) = sub \<or> includesStr cs sub)"

definition endsWith :: "string \<Rightarrow> string \<Rightarrow> bool" where
  "endsWith s suf = (length suf \<le> length s \<and> drop (length s - length suf) s = suf)"

text \<open>\<^verbatim>\<open>s.type === 'ImportSpecifier' && names.includes(s.imported.name)\<close>\<close>

fun importsAny :: "string list \<Rightarrow> specifier \<Rightarrow> bool" where
  "importsAny names (ImportSpecifier n) = (n \<in> set names)"
| "importsAny names s = False"

definition schemaDecorators :: "string list" where
  "schemaDecorators =
     [''Entity'', ''Column'', ''PrimaryColumn'', ''PrimaryGeneratedColumn'', ''CreateDateColumn'',
      ''UpdateDateColumn'', ''DeleteDateColumn'', ''OneToOne'', ''ManyToOne'', ''OneToMany'',
      ''ManyToMany'', ''JoinColumn'', ''JoinTable'']"


definition prismaServiceImport :: stmt where
  "prismaServiceImport = ImportDeclaration ''./prisma.service'' [ImportSpecifier ''PrismaService'']"

definition prismaModuleImport :: stmt where
  "prismaModuleImport = ImportDeclaration ''./prisma/prisma.module'' [ImportSpecifier ''PrismaModule'']"

definition entityImportTodo :: comment where
  "entityImportTodo = CommentLine '' TODO: Review entity import - might need to use Prisma types instead''"

text \<open>
  The specifiers of a \<^verbatim>\<open>typeorm\<close> import after the two filters. Both filters read the
  list \<^verbatim>\<open>specifiers\<close> taken before the first assignment, so when the declaration
  imports \<^verbatim>\<open>Entity\<close> the second assignment overwrites the first.
\<close>

definition typeormSpecifiers :: "specifier list \<Rightarrow> specifier list" where
  "typeormSpecifiers specifiers =
     (let afterRepository =
            (if list_ex (importsAny [''Repository'']) specifiers
             then filter (\<lambda>s. \<not> importsAny [''Repository'', ''getRepository''] s) specifiers
             else specifiers)
      in if list_ex (importsAny [''Entity'']) specifiers
         then filter (\<lambda>s. \<not> importsAny schemaDecorators s) specifiers
         else afterRepository)"

text \<open>
  The body of the \<^verbatim>\<open>forEach\<close> over import declarations, for one top-level statement:
  the statements that take its place (none when the declaration is removed, the comment
  and the declaration when a comment is inserted before it: an import declaration is an
  element of the list of statements), whether a \<^verbatim>\<open>PrismaService\<close> import is put at the
  top of the file, and whether \<^verbatim>\<open>fileChanged.modules\<close> is set.
\<close>

fun importDeclaration :: "stmt \<Rightarrow> stmt list \<times> bool \<times> bool" where
  "importDeclaration (ImportDeclaration source specifiers) =
     (if source = ''typeorm'' then
        ((if typeormSpecifiers specifiers = [] then []
          else [ImportDeclaration source (typeormSpecifiers specifiers)]),
         list_ex (importsAny [''Repository'']) specifiers,
         list_ex (importsAny [''Repository'']) specifiers \<or> list_ex (importsAny [''Entity'']) specifiers)
      else if includesStr (toLowerCase source) ''typeorm/repository'' then ([], False, True)
      else if endsWith source ''.entity'' \<or> includesStr source ''/entities/'' then
        ([CommentStatement entityImportTodo, ImportDeclaration source specifiers], False, False)
      else ([ImportDeclaration source specifiers], False, False))"
| "importDeclaration s = ([s], False, False)"

definition transformImportDeclarations :: "program \<Rightarrow> fileChanged \<Rightarrow> program \<times> fileChanged" where
  "transformImportDeclarations root fc =
     (let steps = map importDeclaration root
      in (replicate (length (filter (\<lambda>r. fst (snd r)) steps)) prismaServiceImport
            @ concat (map fst steps),
          (if list_ex (\<lambda>r. snd (snd r)) steps then fc\<lparr>modules := True\<rparr> else fc)))"

subsection \<open>Module registrations\<close>

text \<open>
  A call whose callee is the identifier \<^verbatim>\<open>forFeature\<close> and whose parent is a member
  access on the identifier \<^verbatim>\<open>TypeOrmModule\<close>: the parent is replaced by the identifier
  \<^verbatim>\<open>PrismaModule\<close>, with everything below it.
\<close>

fun isForFeature :: "expr \<Rightarrow> bool" where
  "isForFeature (MemberExpression obj (CallExpression f args)) =
     (obj = Identifier ''TypeOrmModule'' \<and> f = Identifier ''forFeature'')"
| "isForFeature e = False"

fun hasForFeature :: "expr \<Rightarrow> bool" where
  "hasForFeature (ObjectExpression ps) = list_ex (\<lambda>(k, v). hasForFeature k \<or> hasForFeature v) ps"
| "hasForFeature (MemberExpression a b) =
     (isForFeature (MemberExpression a b) \<or> hasForFeature a \<or> hasForFeature b)"
| "hasForFeature (CallExpression f args) = (hasForFeature f \<or> list_ex hasForFeature args)"
| "hasForFeature (ArrowFunctionExpression b) = hasForFeature b"
| "hasForFeature (OtherNode k slots) = list_ex (\<lambda>(kind, es). list_ex hasForFeature es) slots"
| "hasForFeature e = False"

fun replaceForFeature :: "expr \<Rightarrow> expr" where
  "replaceForFeature (ObjectExpression ps) =
     ObjectExpression (map (\<lambda>(k, v). (replaceForFeature k, replaceForFeature v)) ps)"
| "replaceForFeature (MemberExpression a b) =
     (if isForFeature (MemberExpression a b) then Identifier ''PrismaModule''
      else MemberExpression (replaceForFeature a) (replaceForFeature b))"
| "replaceForFeature (CallExpression f args) =
     CallExpression (replaceForFeature f) (map replaceForFeature args)"
| "replaceForFeature (ArrowFunctionExpression b) = ArrowFunctionExpression (replaceForFeature b)"
| "replaceForFeature (OtherNode k slots) =
     OtherNode k (map (\<lambda>(kind, es). (kind, map replaceForFeature es)) slots)"
| "replaceForFeature e = e"

text \<open>
  A call of \<^verbatim>\<open>TypeOrmModule.forRoot\<close>: the callee becomes the identifier
  \<^verbatim>\<open>PrismaModule\<close> and the arguments are dropped.
\<close>

fun isForRoot :: "expr \<Rightarrow> bool" where
  "isForRoot (CallExpression f args) =
     (f = MemberExpression (Identifier ''TypeOrmModule'') (Identifier ''forRoot''))"
| "isForRoot e = False"

fun hasForRoot :: "expr \<Rightarrow> bool" where
  "hasForRoot (ObjectExpression ps) = list_ex (\<lambda>(k, v). hasForRoot k \<or> hasForRoot v) ps"
| "hasForRoot (MemberExpression a b) = (hasForRoot a \<or> hasForRoot b)"
| "hasForRoot (CallExpression f args) =
     (isForRoot (CallExpression f args) \<or> hasForRoot f \<or> list_ex hasForRoot args)"
| "hasForRoot (ArrowFunctionExpression b) = hasForRoot b"
| "hasForRoot (OtherNode k slots) = list_ex (\<lambda>(kind, es). list_ex hasForRoot es) slots"
| "hasForRoot e = False"

fun replaceForRoot :: "expr \<Rightarrow> expr" where
  "replaceForRoot (ObjectExpression ps) =
     ObjectExpression (map (\<lambda>(k, v). (replaceForRoot k, replaceForRoot v)) ps)"
| "replaceForRoot (MemberExpression a b) = MemberExpression (replaceForRoot a) (replaceForRoot b)"
| "replaceForRoot (CallExpression f args) =
     (if isForRoot (CallExpression f args) then CallExpression (Identifier ''PrismaModule'') []
      else CallExpression (replaceForRoot f) (map replaceForRoot args))"
| "replaceForRoot (ArrowFunctionExpression b) = ArrowFunctionExpression (replaceForRoot b)"
| "replaceForRoot (OtherNode k slots) =
     OtherNode k (map (\<lambda>(kind, es). (kind, map replaceForRoot es)) slots)"
| "replaceForRoot e = e"

fun importsFrom :: "string \<Rightarrow> stmt \<Rightarrow> bool" where
  "importsFrom src (ImportDeclaration source specifiers) = (source = src)"
| "importsFrom src s = False"

definition addPrismaModuleImport :: "program \<Rightarrow> program" where
  "addPrismaModuleImport root =
     (if list_ex (importsFrom ''./prisma/prisma.module'') root then root
      else prismaModuleImport # root)"

text \<open>
  One registration pass: every match is replaced, and when there is a match the import
  of \<^verbatim>\<open>PrismaModule\<close> is ensured and \<^verbatim>\<open>fileChanged.modules\<close> is set.
\<close>

definition registrationPass ::
  "(expr \<Rightarrow> bool) \<Rightarrow> (expr \<Rightarrow> expr) \<Rightarrow> program \<Rightarrow> fileChanged \<Rightarrow> program \<times> fileChanged" where
  "registrationPass found replace root fc =
     (if list_ex found (concat (map stmtExprs root))
      then (addPrismaModuleImport (map (mapStmt replace (\<lambda>e. [replace e])) root),
            fc\<lparr>modules := True\<rparr>)
      else (root, fc))"

definition transformModuleImports :: "program \<Rightarrow> fileChanged \<Rightarrow> program \<times> fileChanged" where
  "transformModuleImports root fc =
     (let (root1, fc1) = transformImportDeclarations root fc;
          (root2, fc2) = registrationPass hasForFeature replaceForFeature root1 fc1
      in registrationPass hasForRoot replaceForRoot root2 fc2)"

section \<open>The transform\<close>

definition schemaPreamble :: string where
  "schemaPreamble = concat (map (\<lambda>l. l @ nl)
     [''// This is your Prisma schema file,'',
      ''// learn more about it in the docs: https://pris.ly/d/prisma-schema'',
      [],
      ''generator client {'',
      ''  provider = '' @ dq @ ''prisma-client-js'' @ dq,
      ''}'',
      [],
      ''datasource db {'',
      ''  provider = '' @ dq @ ''postgresql'' @ dq @ '' // Change to your actual database provider'',
      ''  url      = env('' @ dq @ ''DATABASE_URL'' @ dq @ '')'',
      ''}'',
      []])"


text \<open>
  The schema text handed to the log, when a model was recorded (the sets of fragments
  and enums stay empty throughout the script).
\<close>

definition generatedSchema :: "(string \<times> string) list \<Rightarrow> string option" where
  "generatedSchema prismaModels =
     (if prismaModels = [] then None
      else Some (schemaPreamble @ concat (map (\<lambda>(name, modelDef). modelDef @ nl) prismaModels)))"

text \<open>
  The three stages in their fixed order, on the tree and the flags. A stage that throws
  ends the run: the result is then the exception, with the flags as they were at that
  moment.
\<close>

definition applyTransformations ::
  "program \<Rightarrow> (error + program \<times> (string \<times> string) list) \<times> fileChanged" where
  "applyTransformations root =
     (case transformEntityClasses root initialFlags of
        (Inl e, fc1) \<Rightarrow> (Inl e, fc1)
      | (Inr (root1, prismaModels), fc1) \<Rightarrow>
         (case transformRepositoryUsage root1 fc1 of
            (Inl e, fc2) \<Rightarrow> (Inl e, fc2)
          | (Inr root2, fc2) \<Rightarrow>
             (let (root3, fc3) = transformModuleImports root2 fc2
              in (Inr (root3, prismaModels), fc3))))"

definition anyChanged :: "fileChanged \<Rightarrow> bool" where
  "anyChanged fc = (entities fc \<or> repositories fc \<or> modules fc \<or> services fc)"

text \<open>
  The exported function: \<open>j\<close> is the parser collaborator (\<^verbatim>\<open>j(fileInfo.source)\<close>),
  \<open>toSource\<close> the printer collaborator (\<^verbatim>\<open>root.toSource()\<close>), which may throw, and
  \<open>source\<close> the text of the file. The result is the text that the function returns, or
  the exception that leaves it.
\<close>

definition transform :: "('src \<Rightarrow> program) \<Rightarrow> (program \<Rightarrow> error + 'src) \<Rightarrow> 'src \<Rightarrow> error + 'src" where
  "transform j toSource source =
     (case applyTransformations (j source) of
        (Inl e, fc) \<Rightarrow> Inl e
      | (Inr (root, prismaModels), fc) \<Rightarrow> if anyChanged fc then toSource root else Inr source)"

section \<open>Vocabulary of the properties\<close>

text \<open>
  The definitions of this section are not taken from the script; they name shapes of
  the input that the properties below speak about.

  A call on a member named \<^verbatim>\<open>repository\<close> with the method name \<open>m\<close>,
  \<^verbatim>\<open><obj>.repository.<m>(<args>)\<close>.
\<close>

abbreviation repositoryCall :: "expr \<Rightarrow> string \<Rightarrow> expr list \<Rightarrow> expr" where
  "repositoryCall obj m args \<equiv>
     CallExpression (MemberExpression (MemberExpression obj (Identifier ''repository'')) (Identifier m)) args"

text \<open>
  The method names whose case in the \<^verbatim>\<open>switch\<close> of \<^verbatim>\<open>transformRepositoryUsage\<close> renames
  the method.
\<close>

definition renamedMethods :: "string list" where
  "renamedMethods =
     [''find'', ''findOne'', ''findOneBy'', ''findBy'', ''save'', ''update'', ''delete'', ''remove'',
      ''count'']"

text \<open>
  An entity class that is not exported, with the decorator \<^verbatim>\<open>@Entity(...)\<close> first, and a
  class property with one decorator \<^verbatim>\<open>@<kind>(...)\<close>.
\<close>

abbreviation entityClass :: "string \<Rightarrow> expr list \<Rightarrow> expr list \<Rightarrow> member list \<Rightarrow> stmt" where
  "entityClass name entityArgs ds ms \<equiv>
     ClassDeclaration False name (CallExpression (Identifier ''Entity'') entityArgs # ds) ms"

abbreviation decoratedProperty ::
  "string \<Rightarrow> string \<Rightarrow> expr list \<Rightarrow> tsType option \<Rightarrow> expr option \<Rightarrow> member" where
  "decoratedProperty fieldName kind args t v \<equiv>
     ClassProperty (Identifier fieldName) [CallExpression (Identifier kind) args] t v"

text \<open>
  A parser and a printer for the examples: the text of a file is its tree with a tag
  that tells the text the script was given from the text the printer wrote. The printer
  throws on a tree that holds a comment node among the statements of the file.
\<close>

fun isCommentStatement :: "stmt \<Rightarrow> bool" where
  "isCommentStatement (CommentStatement c) = True"
| "isCommentStatement s = False"

definition exampleParser :: "string \<times> program \<Rightarrow> program" where
  "exampleParser source = snd source"

definition examplePrinter :: "program \<Rightarrow> error + string \<times> program" where
  "examplePrinter root =
     (if list_ex isCommentStatement root then Inl PrintError else Inr (''printed'', root))"

section \<open>Properties of the call-site rewriter\<close>

subsection \<open>The cases that rename the method\<close>

lemma getModelNameFromContext_throws:
  "getModelNameFromContext root enclosing call = Inl TypeError"
  by (simp add: getModelNameFromContext_def ancestors_def)

lemma rewriteCall_repository:
  "rewriteCall position root enclosing (repositoryCall obj m args) =
     rewriteMethod position root enclosing (MemberExpression obj (Identifier ''repository''))
       (Identifier m) args"
  by simp

text \<open>
  Every case that renames the method throws, whatever the receiver, the arguments and
  the place of the call.
\<close>

lemma renamed_method_throws:
  assumes "m \<in> set renamedMethods"
  shows "rewriteCall position root enclosing (repositoryCall obj m args) = Inl TypeError"
  using assms
  by (auto simp: renamedMethods_def rewriteMethod_def getModelNameFromContext_throws)

text \<open>A method name without a case leaves the call as it is.\<close>

lemma other_method_kept:
  assumes "m \<notin> set renamedMethods" and "m \<noteq> ''createQueryBuilder''"
  shows "rewriteCall position root enclosing (repositoryCall obj m args) =
           Inr [repositoryCall obj m args]"
  using assms by (simp add: renamedMethods_def rewriteMethod_def)

lemma keyIs_iff:
  "keyIs n (k, v) \<longleftrightarrow> k = Identifier n \<or> k = StringLiteral n"
  by (cases k) (auto simp: keyIs_def)

lemma isOption_iff:
  "isOption (k, v) \<longleftrightarrow>
     (\<exists>n. n \<in> {''relations'', ''select'', ''order'', ''skip'', ''take''}
          \<and> (k = Identifier n \<or> k = StringLiteral n))"
  by (cases k) (auto simp: isOption_def keyText_def)

subsection \<open>\<^verbatim>\<open>delete\<close> and \<^verbatim>\<open>remove\<close>\<close>

text \<open>
  The helper \<^verbatim>\<open>transformDeleteArguments\<close> on its own, for an argument list of any
  length: a numeric literal, a string literal or an identifier as first argument \<open>a\<close>
  becomes \<^verbatim>\<open>{where: {id: a}}\<close>, an object literal becomes \<^verbatim>\<open>{where: a}\<close>, a first
  argument of any other kind stays as it is, and so do the other arguments.
\<close>

lemma delete_arguments:
  "transformDeleteArguments [] = []
   \<and> transformDeleteArguments (a # rest) =
       (if (\<exists>n. a = NumericLiteral n) \<or> (\<exists>s. a = StringLiteral s) \<or> (\<exists>x. a = Identifier x)
        then ObjectExpression [(Identifier ''where'', ObjectExpression [(Identifier ''id'', a)])]
        else if (\<exists>ps. a = ObjectExpression ps)
        then ObjectExpression [(Identifier ''where'', a)]
        else a) # rest"
  by (cases a) (auto simp: property_def)

text \<open>
  C6. A call \<^verbatim>\<open>x.repository.delete(...)\<close> or \<^verbatim>\<open>x.repository.remove(...)\<close> is not
  rewritten: the case throws a \<^verbatim>\<open>TypeError\<close> when it builds the new receiver, before
  the method is renamed and before \<^verbatim>\<open>transformDeleteArguments\<close> is called, whatever the
  receiver, the arguments and the place of the call. For the file that consists of the
  statement \<^verbatim>\<open>this.repository.delete(1)\<close> the three stages end with this exception and
  no flag set, and the transform returns nothing.
\<close>

theorem delete_remove_throws:
  "rewriteCall position root enclosing (repositoryCall obj ''delete'' args) = Inl TypeError
   \<and> rewriteCall position root enclosing (repositoryCall obj ''remove'' args) = Inl TypeError
   \<and> applyTransformations
        [ExpressionStatement (repositoryCall ThisExpression ''delete'' [NumericLiteral ''1''])]
      = (Inl TypeError, initialFlags)
   \<and> transform exampleParser examplePrinter
        (''original'', [ExpressionStatement (repositoryCall ThisExpression ''delete'' [NumericLiteral ''1''])])
      = Inl TypeError"
proof -
  have "applyTransformations
          [ExpressionStatement (repositoryCall ThisExpression ''delete'' [NumericLiteral ''1''])]
        = (Inl TypeError, initialFlags)"
    by code_simp
  moreover have "transform exampleParser examplePrinter
        (''original'', [ExpressionStatement (repositoryCall ThisExpression ''delete'' [NumericLiteral ''1''])])
      = Inl TypeError"
    by code_simp
  ultimately show ?thesis
    by (simp add: renamed_method_throws renamedMethods_def del: rewriteCall.simps)
qed

subsection \<open>\<^verbatim>\<open>createQueryBuilder\<close>\<close>

text \<open>
  C7. The case \<^verbatim>\<open>createQueryBuilder\<close> inserts its two comments as nodes before the
  call. When the call sits in a single field (the expression of a statement, the object
  of the next call of the chain, the argument of \<^verbatim>\<open>await\<close>, the initial value of a
  declarator) there is no list to insert into and the case throws; for the file that
  consists of the statement \<^verbatim>\<open>this.repository.createQueryBuilder('user').getMany()\<close>
  the transform returns nothing. When the call is an element of a list (an argument of
  another call), the case leaves the call as it is, callee and arguments, and puts the
  TODO line and the example block before it into that list.
\<close>

theorem createQueryBuilder_outside_list_throws:
  "rewriteCall Single root enclosing (repositoryCall obj ''createQueryBuilder'' args) = Inl PathError
   \<and> rewriteCall Many root enclosing (repositoryCall obj ''createQueryBuilder'' args) =
       Inr [CommentNode queryBuilderTodo, CommentNode queryBuilderExample,
            repositoryCall obj ''createQueryBuilder'' args]
   \<and> applyTransformations
        [ExpressionStatement
           (CallExpression
              (MemberExpression (repositoryCall ThisExpression ''createQueryBuilder'' [StringLiteral ''user''])
                 (Identifier ''getMany''))
              [])]
      = (Inl PathError, initialFlags)
   \<and> transform exampleParser examplePrinter
        (''original'',
         [ExpressionStatement
            (CallExpression
               (MemberExpression (repositoryCall ThisExpression ''createQueryBuilder'' [StringLiteral ''user''])
                  (Identifier ''getMany''))
               [])])
      = Inl PathError"
proof -
  have "applyTransformations
        [ExpressionStatement
           (CallExpression
              (MemberExpression (repositoryCall ThisExpression ''createQueryBuilder'' [StringLiteral ''user''])
                 (Identifier ''getMany''))
              [])]
      = (Inl PathError, initialFlags)"
    by code_simp
  moreover have "transform exampleParser examplePrinter
        (''original'',
         [ExpressionStatement
            (CallExpression
               (MemberExpression (repositoryCall ThisExpression ''createQueryBuilder'' [StringLiteral ''user''])
                  (Identifier ''getMany''))
               [])])
      = Inl PathError"
    by code_simp
  ultimately show ?thesis
    by (simp add: rewriteMethod_def insertBefore_def)
qed

text \<open>
  In the whole pass, a \<^verbatim>\<open>createQueryBuilder\<close> call that is an argument of another call:
  the two comments become arguments of that call.
\<close>

lemma createQueryBuilder_in_arguments:
  "applyTransformations
     [ExpressionStatement
        (CallExpression (Identifier ''run'')
           [repositoryCall ThisExpression ''createQueryBuilder'' [StringLiteral ''user'']])]
   = (Inr ([ExpressionStatement
              (CallExpression (Identifier ''run'')
                 [CommentNode queryBuilderTodo, CommentNode queryBuilderExample,
                  repositoryCall ThisExpression ''createQueryBuilder'' [StringLiteral ''user'']])],
           []),
      initialFlags\<lparr>services := True\<rparr>)"
  by code_simp

subsection \<open>\<^verbatim>\<open>findOne\<close>\<close>

lemma renameRelations_eq:
  "renameRelations qs =
     (case findIndex (keyIs ''relations'') qs of
        None \<Rightarrow> qs
      | Some i \<Rightarrow> qs[i := (Identifier ''include'', snd (qs ! i))])"
  by (induction qs) (auto split: option.splits)

lemma renameRelations_append:
  "\<not> keyIs ''relations'' q \<Longrightarrow> renameRelations (qs @ [q]) = renameRelations qs @ [q]"
  by (induction qs) auto

lemma where_is_not_relations: "\<not> keyIs ''relations'' (property ''where'' v)"
  by (simp add: keyIs_def property_def)

text \<open>
  The helper \<^verbatim>\<open>transformFindOneArguments\<close> on its own, for an object literal without a
  key \<^verbatim>\<open>where\<close> as first argument. The properties keyed \<^verbatim>\<open>relations\<close>, \<^verbatim>\<open>select\<close>,
  \<^verbatim>\<open>order\<close>, \<^verbatim>\<open>skip\<close> or \<^verbatim>\<open>take\<close> (\<open>isOption\<close>) stay in the object, in their order
  and with their values; the first one keyed \<^verbatim>\<open>relations\<close> gets the key \<^verbatim>\<open>include\<close>.
  All other properties are moved, in their order, into a new object under the key
  \<^verbatim>\<open>where\<close>, which is added last; when there is no such property, no \<^verbatim>\<open>where\<close> is
  added.
\<close>

lemma findOne_arguments:
  assumes "\<forall>p \<in> set ps. fst p \<noteq> Identifier ''where'' \<and> fst p \<noteq> StringLiteral ''where''"
  shows "transformFindOneArguments (ObjectExpression ps # rest) =
           ObjectExpression
             (let opts = filter isOption ps;
                  criteria = filter (\<lambda>p. \<not> isOption p) ps;
                  passed = (case findIndex (keyIs ''relations'') opts of
                              None \<Rightarrow> opts
                            | Some i \<Rightarrow> opts[i := (Identifier ''include'', snd (opts ! i))])
              in if criteria = [] then passed
                 else passed @ [(Identifier ''where'', ObjectExpression criteria)]) # rest"
proof -
  have noWhere: "\<not> list_ex (keyIs ''where'') ps"
    using assms by (auto simp: list_ex_iff keyIs_iff)
  have all: "filter (\<lambda>p. \<not> isOption p) ps = [] \<Longrightarrow> filter isOption ps = ps"
    by (simp add: filter_empty_conv)
  have "transformFindOneArguments (ObjectExpression ps # rest) =
          ObjectExpression
             (if filter (\<lambda>p. \<not> isOption p) ps = [] then renameRelations (filter isOption ps)
              else renameRelations (filter isOption ps)
                   @ [(Identifier ''where'', ObjectExpression (filter (\<lambda>p. \<not> isOption p) ps))]) # rest"
    using noWhere all where_is_not_relations
    by (auto simp: Let_def renameRelations_append) (simp add: property_def)
  then show ?thesis
    by (simp add: Let_def renameRelations_eq)
qed

lemma findOne_arguments_example:
  "transformFindOneArguments
     [ObjectExpression
        [(Identifier ''id'', NumericLiteral ''1''),
         (Identifier ''relations'', OtherNode ''ArrayExpression'' [(Many, [StringLiteral ''profile''])]),
         (StringLiteral ''take'', NumericLiteral ''1'')]]
   = [ObjectExpression
        [(Identifier ''include'', OtherNode ''ArrayExpression'' [(Many, [StringLiteral ''profile''])]),
         (StringLiteral ''take'', NumericLiteral ''1''),
         (Identifier ''where'', ObjectExpression [(Identifier ''id'', NumericLiteral ''1'')])]]"
  by code_simp

text \<open>
  C5. A call \<^verbatim>\<open>x.repository.findOne(...)\<close> is not rewritten: the case throws a
  \<^verbatim>\<open>TypeError\<close> when it builds the new receiver, before the method is renamed to
  \<^verbatim>\<open>findUnique\<close> and before \<^verbatim>\<open>transformFindOneArguments\<close> is called, whatever the
  receiver, the arguments and the place of the call. For the file that consists of the
  statement \<^verbatim>\<open>this.repository.findOne({ id: 1, relations: ['profile'] })\<close> the three
  stages end with this exception and no flag set, and the transform returns nothing.
\<close>

theorem findOne_throws:
  "rewriteCall position root enclosing (repositoryCall obj ''findOne'' args) = Inl TypeError
   \<and> applyTransformations
        [ExpressionStatement
           (repositoryCall ThisExpression ''findOne''
              [ObjectExpression
                 [(Identifier ''id'', NumericLiteral ''1''),
                  (Identifier ''relations'',
                   OtherNode ''ArrayExpression'' [(Many, [StringLiteral ''profile''])])]])]
      = (Inl TypeError, initialFlags)
   \<and> transform exampleParser examplePrinter
        (''original'',
         [ExpressionStatement
            (repositoryCall ThisExpression ''findOne''
               [ObjectExpression
                  [(Identifier ''id'', NumericLiteral ''1''),
                   (Identifier ''relations'',
                    OtherNode ''ArrayExpression'' [(Many, [StringLiteral ''profile''])])]])])
      = Inl TypeError"
proof -
  have "applyTransformations
        [ExpressionStatement
           (repositoryCall ThisExpression ''findOne''
              [ObjectExpression
                 [(Identifier ''id'', NumericLiteral ''1''),
                  (Identifier ''relations'',
                   OtherNode ''ArrayExpression'' [(Many, [StringLiteral ''profile''])])]])]
      = (Inl TypeError, initialFlags)"
    by code_simp
  moreover have "transform exampleParser examplePrinter
        (''original'',
         [ExpressionStatement
            (repositoryCall ThisExpression ''findOne''
               [ObjectExpression
                  [(Identifier ''id'', NumericLiteral ''1''),
                   (Identifier ''relations'',
                    OtherNode ''ArrayExpression'' [(Many, [StringLiteral ''profile''])])]])])
      = Inl TypeError"
    by code_simp
  ultimately show ?thesis
    by (simp add: renamed_method_throws renamedMethods_def del: rewriteCall.simps)
qed

subsection \<open>\<^verbatim>\<open>save\<close>\<close>

text \<open>
  The test of the heuristic, which the case \<^verbatim>\<open>save\<close> never reaches: a property \<^verbatim>\<open>id\<close>
  counts when its value is a string, numeric or boolean literal, and does not count
  when its value is an identifier, which has no \<^verbatim>\<open>value\<close> attribute.
\<close>

lemma hasIdProperty_literal:
  "hasIdProperty [ObjectExpression [(Identifier ''id'', NumericLiteral ''5''), (Identifier ''name'', StringLiteral ''x'')]]
   \<and> \<not> hasIdProperty [ObjectExpression [(Identifier ''id'', Identifier ''userId''), (Identifier ''name'', StringLiteral ''x'')]]"
  by (simp add: idCandidate_def)

text \<open>
  C3. A call \<^verbatim>\<open>x.repository.save(...)\<close> is not rewritten: the case throws a
  \<^verbatim>\<open>TypeError\<close> when it builds the new receiver, before the comment is inserted and
  before the argument is looked at, whatever the receiver, the arguments and the place
  of the call. For the file that consists of the statement
  \<^verbatim>\<open>this.repository.save({ id: 5, name: 'x' })\<close> the three stages end with this
  exception and no flag set, and the transform returns nothing.
\<close>

theorem save_throws:
  "rewriteCall position root enclosing (repositoryCall obj ''save'' args) = Inl TypeError
   \<and> applyTransformations
        [ExpressionStatement
           (repositoryCall ThisExpression ''save''
              [ObjectExpression
                 [(Identifier ''id'', NumericLiteral ''5''), (Identifier ''name'', StringLiteral ''x'')]])]
      = (Inl TypeError, initialFlags)
   \<and> transform exampleParser examplePrinter
        (''original'',
         [ExpressionStatement
            (repositoryCall ThisExpression ''save''
               [ObjectExpression
                  [(Identifier ''id'', NumericLiteral ''5''), (Identifier ''name'', StringLiteral ''x'')]])])
      = Inl TypeError"
proof -
  have "applyTransformations
        [ExpressionStatement
           (repositoryCall ThisExpression ''save''
              [ObjectExpression
                 [(Identifier ''id'', NumericLiteral ''5''), (Identifier ''name'', StringLiteral ''x'')]])]
      = (Inl TypeError, initialFlags)"
    by code_simp
  moreover have "transform exampleParser examplePrinter
        (''original'',
         [ExpressionStatement
            (repositoryCall ThisExpression ''save''
               [ObjectExpression
                  [(Identifier ''id'', NumericLiteral ''5''), (Identifier ''name'', StringLiteral ''x'')]])])
      = Inl TypeError"
    by code_simp
  ultimately show ?thesis
    by (simp add: renamed_method_throws renamedMethods_def del: rewriteCall.simps)
qed

section \<open>Properties of the schema extractor\<close>


text \<open>
  An instance: the class \<^verbatim>\<open>Post\<close> with \<^verbatim>\<open>@ManyToOne(() => User) author\<close>, with the
  fragment that is recorded and the schema text that is handed to the log.
\<close>

lemma relation_fragment_example:
  "applyTransformations
     [entityClass ''Post'' [] []
        [decoratedProperty ''author'' ''ManyToOne'' [ArrowFunctionExpression (Identifier ''User'')] None None]]
   = (Inr ([CommentStatement entityNote,
            entityClass ''Post'' [] []
              [decoratedProperty ''author'' ''ManyToOne'' [ArrowFunctionExpression (Identifier ''User'')] None None]],
           [(''Post'',
             ''model Post {'' @ nl
             @ ''  author User @relation('' @ dq @ ''authorRelation'' @ dq @ '')'' @ nl
             @ ''  authorId Int'' @ nl
             @ nl @ ''  @@map('' @ dq @ ''post'' @ dq @ '')'' @ nl @ ''}'' @ nl)]),
      initialFlags\<lparr>entities := True\<rparr>)"
  by code_simp

lemma schema_holds_the_fragment:
  "generatedSchema [(name, fragment)] = Some (schemaPreamble @ fragment @ nl)"
  by (simp add: generatedSchema_def)

text \<open>
  The same class as the declaration of an export statement: the insertion of the
  comment throws, and the run ends there.
\<close>

lemma exported_entity_throws:
  "applyTransformations [ClassDeclaration True ''Post'' [CallExpression (Identifier ''Entity'') []] []]
   = (Inl PathError, initialFlags)"
  by code_simp

section \<open>Properties of the change flags\<close>

lemma entityClasses_repositories:
  "repositories (snd (entityClasses root fc prismaModels)) = repositories fc"
proof (induction root arbitrary: fc prismaModels)
  case Nil
  show ?case by simp
next
  case (Cons s rest)
  show ?case
  proof (cases "isEntity s")
    case True
    show ?thesis
    proof (cases "classPosition s")
      case Single
      with True show ?thesis by (simp add: insertBefore_def)
    next
      case Many
      obtain r fc' where
        r: "entityClasses rest (fc\<lparr>entities := True\<rparr>)
              (mapSet (classId s) (modelDefinition s) prismaModels) = (r, fc')"
        by (cases "entityClasses rest (fc\<lparr>entities := True\<rparr>)
                     (mapSet (classId s) (modelDefinition s) prismaModels)")
      from Cons.IH [of "fc\<lparr>entities := True\<rparr>" "mapSet (classId s) (modelDefinition s) prismaModels"] r
      have "repositories fc' = repositories fc" by simp
      with True Many r show ?thesis
        by (cases r) (auto simp: insertBefore_def)
    qed
  next
    case False
    obtain r fc' where r: "entityClasses rest fc prismaModels = (r, fc')"
      by (cases "entityClasses rest fc prismaModels")
    from Cons.IH [of fc prismaModels] r have "repositories fc' = repositories fc" by simp
    with False r show ?thesis
      by (cases r) auto
  qed
qed

lemma entities_repositories [simp]:
  "repositories (snd (transformEntityClasses root fc)) = repositories fc"
  by (simp add: transformEntityClasses_def entityClasses_repositories)

lemma visitCalls_repositories [simp]:
  "repositories (snd (visitCalls root calls fc)) = repositories fc"
proof (induction root calls fc rule: visitCalls.induct)
  case (1 root fc)
  show ?case by simp
next
  case (2 root enclosing position call rest fc)
  show ?case
  proof (cases "isRepositoryCall call")
    case True
    show ?thesis
    proof (cases "rewriteCall position root enclosing call")
      case (Inl e)
      with True show ?thesis by simp
    next
      case (Inr nodes)
      with True 2(1) [OF True Inr] show ?thesis by simp
    qed
  next
    case False
    with 2(2) [OF False] show ?thesis by simp
  qed
qed

lemma hasRepositoryParam_never: "\<not> list_ex hasRepositoryParam root"
  by (simp add: hasRepositoryParam_def methodDefinitions_def list_ex_iff)

lemma usage_repositories [simp]:
  "repositories (snd (transformRepositoryUsage root fc)) = repositories fc"
proof -
  obtain err fc2 where v: "visitCalls root (programCalls root) fc = (err, fc2)"
    by (cases "visitCalls root (programCalls root) fc")
  have "repositories (snd (visitCalls root (programCalls root) fc)) = repositories fc"
    by simp
  with v have "repositories fc2 = repositories fc" by simp
  with v show ?thesis
    by (cases err) (simp_all add: transformRepositoryUsage_def hasRepositoryParam_never)
qed

lemma registration_repositories [simp]:
  "repositories (snd (registrationPass found replace root fc)) = repositories fc"
  by (simp add: registrationPass_def)

lemma imports_repositories [simp]:
  "repositories (snd (transformImportDeclarations root fc)) = repositories fc"
  by (simp add: transformImportDeclarations_def Let_def)

lemma modules_repositories [simp]:
  "repositories (snd (transformModuleImports root fc)) = repositories fc"
  by (simp add: transformModuleImports_def split_beta)

lemma applyTransformations_repositories:
  "repositories (snd (applyTransformations root)) = False"
proof -
  have one: "repositories (snd (transformEntityClasses root initialFlags)) = False"
    by (simp add: initialFlags_def)
  show ?thesis
  proof (cases "transformEntityClasses root initialFlags")
    case (Pair r1 fc1)
    with one have fc1: "repositories fc1 = False" by simp
    show ?thesis
    proof (cases r1)
      case (Inl e)
      with Pair fc1 show ?thesis by (simp add: applyTransformations_def)
    next
      case (Inr p)
      obtain root1 prismaModels where p: "p = (root1, prismaModels)" by (cases p)
      show ?thesis
      proof (cases "transformRepositoryUsage root1 fc1")
        case usage: (Pair r2 fc2)
        have "repositories (snd (transformRepositoryUsage root1 fc1)) = repositories fc1"
          by simp
        with usage fc1 have fc2: "repositories fc2 = False" by simp
        show ?thesis
        proof (cases r2)
          case (Inl e)
          with Pair Inr p usage fc2 show ?thesis by (simp add: applyTransformations_def)
        next
          case inner: (Inr root2)
          have "repositories (snd (transformModuleImports root2 fc2)) = False"
            using fc2 by simp
          with Pair Inr p usage inner show ?thesis
            by (simp add: applyTransformations_def split_beta)
        qed
      qed
    qed
  qed
qed

text \<open>
  C10. The flag \<^verbatim>\<open>repositories\<close> starts as false and is false when the three stages
  end, whatever the file and however they end; the choice between the original text and
  the printed tree therefore rests on the other three flags.
\<close>

theorem repositories_never_set:
  "repositories initialFlags = False
   \<and> repositories (snd (applyTransformations root)) = False
   \<and> transform j toSource source =
       (case applyTransformations (j source) of
          (Inl e, fc) \<Rightarrow> Inl e
        | (Inr (root', prismaModels), fc) \<Rightarrow>
            if entities fc \<or> modules fc \<or> services fc then toSource root' else Inr source)"
proof -
  have "repositories (snd (applyTransformations (j source))) = False"
    by (rule applyTransformations_repositories)
  then have "transform j toSource source =
       (case applyTransformations (j source) of
          (Inl e, fc) \<Rightarrow> Inl e
        | (Inr (root', prismaModels), fc) \<Rightarrow>
            if entities fc \<or> modules fc \<or> services fc then toSource root' else Inr source)"
    by (auto simp: transform_def anyChanged_def split: prod.splits sum.splits)
  then show ?thesis
    by (simp add: applyTransformations_repositories) (simp add: initialFlags_def)
qed



subsection \<open>The flag \<^verbatim>\<open>services\<close>\<close>

lemma visitCalls_services:
  "visitCalls root calls fc = (None, fc') \<Longrightarrow>
     services fc' = (services fc \<or> list_ex (\<lambda>(enclosing, position, call). isRepositoryCall call) calls)"
proof (induction root calls fc rule: visitCalls.induct)
  case (1 root fc)
  then show ?case by simp
next
  case (2 root enclosing position call rest fc)
  show ?case
  proof (cases "isRepositoryCall call")
    case True
    show ?thesis
    proof (cases "rewriteCall position root enclosing call")
      case (Inl e)
      with True 2(3) show ?thesis by simp
    next
      case (Inr nodes)
      with True 2(3) have "visitCalls root rest (fc\<lparr>services := True\<rparr>) = (None, fc')"
        by simp
      from 2(1) [OF True Inr this] True show ?thesis by simp
    qed
  next
    case False
    with 2(3) have "visitCalls root rest fc = (None, fc')" by simp
    from 2(2) [OF False this] False show ?thesis by simp
  qed
qed

lemma usage_services:
  assumes "transformRepositoryUsage root fc = (Inr root', fc')"
  shows "services fc' =
           (services fc \<or> list_ex (\<lambda>(enclosing, position, call). isRepositoryCall call) (programCalls root))"
proof -
  obtain err fc2 where v: "visitCalls root (programCalls root) fc = (err, fc2)"
    by (cases "visitCalls root (programCalls root) fc")
  with assms have "err = None \<and> fc2 = fc'"
    by (cases err) (simp_all add: transformRepositoryUsage_def hasRepositoryParam_never)
  with v have "visitCalls root (programCalls root) fc = (None, fc')" by simp
  then show ?thesis by (rule visitCalls_services)
qed

lemma comment_statement_calls: "stmtCalls (CommentStatement c) = []"
  by (simp add: stmtCalls_def)

lemma entityClasses_calls:
  "entityClasses root fc prismaModels = (Inr (root', prismaModels'), fc') \<Longrightarrow>
     programCalls root' = programCalls root"
proof (induction root arbitrary: fc prismaModels root' prismaModels' fc')
  case Nil
  then show ?case by (simp add: programCalls_def)
next
  case (Cons s rest)
  show ?case
  proof (cases "isEntity s")
    case True
    with Cons.prems obtain rest' where
      rest: "entityClasses rest (fc\<lparr>entities := True\<rparr>) (mapSet (classId s) (modelDefinition s) prismaModels)
               = (Inr (rest', prismaModels'), fc')"
      and root': "root' = CommentStatement entityNote # s # rest'"
      by (auto simp: insertBefore_def split: slot.splits prod.splits sum.splits)
    from Cons.IH [OF rest] root' show ?thesis
      by (simp add: programCalls_def comment_statement_calls)
  next
    case False
    with Cons.prems obtain rest' where
      rest: "entityClasses rest fc prismaModels = (Inr (rest', prismaModels'), fc')"
      and root': "root' = s # rest'"
      by (auto split: prod.splits sum.splits)
    from Cons.IH [OF rest] root' show ?thesis
      by (simp add: programCalls_def)
  qed
qed

lemma registration_services [simp]:
  "services (snd (registrationPass found replace root fc)) = services fc"
  by (simp add: registrationPass_def)

lemma imports_services [simp]:
  "services (snd (transformImportDeclarations root fc)) = services fc"
  by (simp add: transformImportDeclarations_def Let_def)

lemma modules_services [simp]:
  "services (snd (transformModuleImports root fc)) = services fc"
  by (simp add: transformModuleImports_def split_beta)

text \<open>
  Where line 684 is reached. In a run that ends without an exception, a call on a
  member named \<^verbatim>\<open>repository\<close> anywhere in the file has set \<^verbatim>\<open>fileChanged.services\<close>,
  and the transform returns what the printer makes of the tree. Such a run has visited
  no call of a method that the \<^verbatim>\<open>switch\<close> renames.
\<close>

lemma repository_call_sets_services_in_a_completed_run:
  assumes run: "applyTransformations (j source) = (Inr (root', prismaModels), fc)"
    and call: "(enclosing, position, CallExpression (MemberExpression (MemberExpression obj (Identifier ''repository'')) meth) args)
                 \<in> set (programCalls (j source))"
  shows "services fc \<and> transform j toSource source = toSource root'"
proof -
  from run obtain root1 fc1 root2 fc2 where
    one: "transformEntityClasses (j source) initialFlags = (Inr (root1, prismaModels), fc1)"
    and two: "transformRepositoryUsage root1 fc1 = (Inr root2, fc2)"
    and three: "transformModuleImports root2 fc2 = (root', fc)"
    by (auto simp: applyTransformations_def split: prod.splits sum.splits)
  from one have "programCalls root1 = programCalls (j source)"
    by (simp add: transformEntityClasses_def entityClasses_calls)
  with call have "list_ex (\<lambda>(enclosing, position, call). isRepositoryCall call) (programCalls root1)"
    unfolding list_ex_iff by force
  with usage_services [OF two] have "services fc2" by simp
  moreover have "services (snd (transformModuleImports root2 fc2)) = services fc2"
    by simp
  ultimately have "services fc" using three by simp
  then show ?thesis
    using run by (simp add: transform_def anyChanged_def)
qed

text \<open>
  C9. A call on a member named \<^verbatim>\<open>repository\<close> does not set \<^verbatim>\<open>fileChanged.services\<close>
  when its method is one that the \<^verbatim>\<open>switch\<close> renames: for the file that consists of the
  statement \<^verbatim>\<open>this.repository.find()\<close> the case throws before the assignment after the
  \<^verbatim>\<open>switch\<close> is reached, the three stages end with this exception and the flag unset,
  and the transform returns neither the printed tree nor the original text.
\<close>

theorem repository_find_leaves_services_unset:
  "applyTransformations [ExpressionStatement (repositoryCall ThisExpression ''find'' [])]
     = (Inl TypeError, initialFlags)
   \<and> services initialFlags = False
   \<and> transform exampleParser examplePrinter
        (''original'', [ExpressionStatement (repositoryCall ThisExpression ''find'' [])])
      = Inl TypeError"
  by code_simp

subsection \<open>The flag \<^verbatim>\<open>modules\<close>\<close>

text \<open>
  C8. Two rewrites of the import rewriter leave \<^verbatim>\<open>fileChanged.modules\<close> unset. The
  import \<^verbatim>\<open>import { User } from './user.entity'\<close> gets the review comment, and
  the import \<^verbatim>\<open>import 'typeorm'\<close>, which has no specifier, is removed; in both cases the
  flags stay as they were, so that for a file with nothing else to rewrite the transform
  returns the original text and the change to the tree is lost.
\<close>

theorem entity_import_marker_leaves_modules_unset:
  "transformModuleImports [ImportDeclaration ''./user.entity'' [ImportSpecifier ''User'']] initialFlags
     = ([CommentStatement entityImportTodo,
         ImportDeclaration ''./user.entity'' [ImportSpecifier ''User'']], initialFlags)
   \<and> transformModuleImports [ImportDeclaration ''typeorm'' []] initialFlags = ([], initialFlags)
   \<and> modules initialFlags = False
   \<and> transform exampleParser examplePrinter
        (''original'', [ImportDeclaration ''./user.entity'' [ImportSpecifier ''User'']])
      = Inr (''original'', [ImportDeclaration ''./user.entity'' [ImportSpecifier ''User'']])"
  by code_simp

section \<open>Running the transform on its own output\<close>

text \<open>
  C2. The file \<^verbatim>\<open>import { Repository, Entity, In } from 'typeorm'\<close>. The first run adds
  the import of \<^verbatim>\<open>PrismaService\<close> and filters the specifiers twice, each time from the
  list it read at the start, so that \<^verbatim>\<open>Repository\<close> is back after the second filter. Its
  output still imports \<^verbatim>\<open>Repository\<close> from \<^verbatim>\<open>typeorm\<close>, and the second run changes it:
  it adds a second import of \<^verbatim>\<open>PrismaService\<close> and takes \<^verbatim>\<open>Repository\<close> out.
\<close>

theorem second_run_changes_the_output:
  "transform exampleParser examplePrinter
     (''original'',
      [ImportDeclaration ''typeorm''
         [ImportSpecifier ''Repository'', ImportSpecifier ''Entity'', ImportSpecifier ''In'']])
   = Inr (''printed'',
          [ImportDeclaration ''./prisma.service'' [ImportSpecifier ''PrismaService''],
           ImportDeclaration ''typeorm'' [ImportSpecifier ''Repository'', ImportSpecifier ''In'']])
   \<and> transform exampleParser examplePrinter
       (''printed'',
        [ImportDeclaration ''./prisma.service'' [ImportSpecifier ''PrismaService''],
         ImportDeclaration ''typeorm'' [ImportSpecifier ''Repository'', ImportSpecifier ''In'']])
     = Inr (''printed'',
            [ImportDeclaration ''./prisma.service'' [ImportSpecifier ''PrismaService''],
             ImportDeclaration ''./prisma.service'' [ImportSpecifier ''PrismaService''],
             ImportDeclaration ''typeorm'' [ImportSpecifier ''In'']])"
  by code_simp

text \<open>
  A \<^verbatim>\<open>typeorm\<close> import that names \<^verbatim>\<open>Repository\<close> and not \<^verbatim>\<open>Entity\<close> is settled after
  one run: the second run finds nothing and returns its input.
\<close>

lemma repository_import_settles:
  "transform exampleParser examplePrinter
     (''original'', [ImportDeclaration ''typeorm'' [ImportSpecifier ''Repository'', ImportSpecifier ''In'']])
   = Inr (''printed'',
          [ImportDeclaration ''./prisma.service'' [ImportSpecifier ''PrismaService''],
           ImportDeclaration ''typeorm'' [ImportSpecifier ''In'']])
   \<and> transform exampleParser examplePrinter
       (''printed'',
        [ImportDeclaration ''./prisma.service'' [ImportSpecifier ''PrismaService''],
         ImportDeclaration ''typeorm'' [ImportSpecifier ''In'']])
     = Inr (''printed'',
            [ImportDeclaration ''./prisma.service'' [ImportSpecifier ''PrismaService''],
             ImportDeclaration ''typeorm'' [ImportSpecifier ''In'']])"
  by code_simp

text \<open>
  An entity class has no second run with the example printer: the comment that the
  first run inserts before the class is a node among the statements of the file, on
  which the printer throws.
\<close>

lemma entity_class_is_not_printed:
  "transform exampleParser examplePrinter (''original'', [entityClass ''User'' [] [] []])
   = Inl PrintError"
  by code_simp

end
